theory Spec2Isabelle
  imports Complex_Main "HOL-Library.AList" "HOL-Library.Extended_Nat"
begin

section \<open>Values, rendered strings and exceptions\<close>

text \<open>
  The handlers of \<^verbatim>\<open>app/routers/orders.py\<close> and \<^verbatim>\<open>app/routers/products.py\<close> read
  and write nodes of a graph store. A node is a bag of properties; the values the
  handlers store are strings, integers, floats (kept as reals: the handlers only compare
  them), booleans and the timestamps that the store's \<^verbatim>\<open>datetime()\<close> produces.
\<close>

datatype val = VStr string | VInt int | VNum real | VBool bool | VTime nat

text \<open>
  Python's \<^verbatim>\<open>str(...)\<close> is kept symbolic: \<open>StrNat n\<close> is \<^verbatim>\<open>str(n)\<close> of a node's
  numeric id, \<open>StrVal v\<close> is \<^verbatim>\<open>str(v)\<close> of a property value (\<open>None\<close> for Python's
  \<^verbatim>\<open>None\<close>) and \<open>StrExn e\<close> is \<^verbatim>\<open>str(e)\<close> of a caught exception. \<open>Lit\<close> is a
  string literal of the source.

  Every exception below is a subclass of Python's \<^verbatim>\<open>Exception\<close>: the framework's
  \<^verbatim>\<open>HTTPException(status_code, detail)\<close>, the driver's syntax error for a statement
  that does not parse, the \<^verbatim>\<open>OverflowError\<close> with which the driver refuses an integer
  parameter outside 64 bits, and \<^verbatim>\<open>TypeError\<close> of subscripting \<^verbatim>\<open>None\<close> or of
  passing one keyword argument twice.
\<close>

datatype pystr = Lit string | StrNat nat | StrVal "val option" | StrExn exn
  and exn = HTTPException nat pystr
          | CypherSyntaxError
          | OverflowError
          | TypeError

section \<open>The graph store\<close>

record node =
  node_id :: nat
  element_id :: string
  props :: "(string \<times> val) list"

text \<open>
  The store holds the nodes by label and the relationships as pairs of numeric node
  ids: \<open>bakes\<close> from a user to a product, \<open>placed\<close> from a user to an order and
  \<open>for_product\<close> from an order to a product. \<open>next_id\<close> is the identifier the engine
  gives to the next node it creates. \<open>runs\<close> counts the statements the store has been
  asked to run: it is what "the store was not touched" is stated with.
\<close>

record db =
  users :: "node list"
  products :: "node list"
  orders :: "node list"
  bakes :: "(nat \<times> nat) list"
  placed :: "(nat \<times> nat) list"
  for_product :: "(nat \<times> nat) list"
  next_id :: nat
  runs :: nat

definition node_get :: "node \<Rightarrow> string \<Rightarrow> val option" where
  "node_get n k = map_of (props n) k"

text \<open>\<^verbatim>\<open>SET n.k = v\<close> on one node.\<close>

definition set_prop :: "string \<Rightarrow> val \<Rightarrow> node \<Rightarrow> node" where
  "set_prop k v n = n\<lparr>props := AList.update k v (props n)\<rparr>"

text \<open>The node pattern \<^verbatim>\<open>(b:User {email: $email})\<close>.\<close>

definition has_email :: "string \<Rightarrow> node \<Rightarrow> bool" where
  "has_email e n = (node_get n ''email'' = Some (VStr e))"

text \<open>
  Every statement that reaches the store is counted, also one that the store rejects.
\<close>

definition tick :: "db \<Rightarrow> db" where
  "tick d = d\<lparr>runs := Suc (runs d)\<rparr>"

text \<open>
  The store's integers have 64 bits. Python's are unbounded, and the driver raises
  \<^verbatim>\<open>OverflowError\<close> inside \<^verbatim>\<open>db.run\<close>, while it packs the parameters and before
  anything is sent, when an integer parameter does not fit.
\<close>

definition fits_int64 :: "int \<Rightarrow> bool" where
  "fits_int64 i = (- (2 ^ 63) \<le> i \<and> i < 2 ^ 63)"

definition packable :: "val \<Rightarrow> bool" where
  "packable v = (case v of VInt i \<Rightarrow> fits_int64 i | _ \<Rightarrow> True)"

text \<open>
  The decimal rendering of a number. The engine's element identifier is opaque to the
  handlers; for a node that a statement creates, the model takes the rendering of its
  numeric id.
\<close>

fun str_nat :: "nat \<Rightarrow> string" where
  "str_nat n = (if n < 10 then [''0123456789'' ! n]
                else str_nat (n div 10) @ [''0123456789'' ! (n mod 10)])"

declare str_nat.simps [simp del]

definition new_node :: "db \<Rightarrow> (string \<times> val) list \<Rightarrow> node" where
  "new_node d ps = \<lparr>node_id = next_id d, element_id = str_nat (next_id d), props = ps\<rparr>"

text \<open>
  \<^verbatim>\<open>result.single()\<close>: the first record, or \<^verbatim>\<open>None\<close> when there is none (with more
  than one record the driver warns and still returns the first).
\<close>

definition single :: "'a list \<Rightarrow> 'a option" where
  "single rows = (case rows of [] \<Rightarrow> None | r # _ \<Rightarrow> Some r)"

text \<open>
  \<^verbatim>\<open>ORDER BY n.created_at DESC\<close>. The store orders \<^verbatim>\<open>null\<close> above every value, so a
  node without the property comes first in descending order; the handlers only ever
  write \<^verbatim>\<open>datetime()\<close> under \<^verbatim>\<open>created_at\<close>, and a value of another type there is
  ordered like \<^verbatim>\<open>null\<close>. Which of two rows with equal keys comes first is the engine's
  choice; the model keeps a stable order.
\<close>

definition created_key :: "node \<Rightarrow> enat" where
  "created_key n = (case node_get n ''created_at'' of Some (VTime t) \<Rightarrow> enat t | _ \<Rightarrow> \<infinity>)"

definition order_by_desc :: "('a \<Rightarrow> enat) \<Rightarrow> 'a list \<Rightarrow> 'a list" where
  "order_by_desc k rows = rev (sort_key k rows)"

section \<open>Request and response records\<close>

text \<open>
  \<open>user\<close> is what the authentication dependency hands to a handler: the handlers read
  \<^verbatim>\<open>current_user["email"]\<close> and \<^verbatim>\<open>current_user["role"]\<close>.
\<close>

record user =
  email :: string
  role :: string

record order_create =
  product_id :: string
  quantity :: int

record product_create =
  name :: string
  description :: "string option"
  price :: real
  stock_quantity :: int

record order_response =
  or_id :: pystr
  or_status :: "val option"
  or_quantity :: "val option"
  or_created_at :: pystr
  or_product_name :: "val option"
  or_customer_name :: "val option"
  or_baker_name :: "val option"

record product_response =
  pr_id :: pystr
  pr_name :: "val option"
  pr_description :: "val option"
  pr_price :: "val option"
  pr_stock_quantity :: "val option"
  pr_is_available :: "val option"
  pr_created_at :: pystr

text \<open>
  A field of a response holds what the handler passes for it, \<open>None\<close> for Python's
  \<^verbatim>\<open>None\<close>. The response schemas are declared outside these files: what they refuse
  is not part of the model.

  \<^verbatim>\<open>n[k]\<close> on a node of the driver raises nothing: like \<^verbatim>\<open>n.get(k)\<close>, it gives
  \<^verbatim>\<open>None\<close> for a property the node does not have. \<^verbatim>\<open>n.get(k, v)\<close> gives \<open>v\<close> then.
\<close>

definition getitem :: "node \<Rightarrow> string \<Rightarrow> val option" where
  "getitem n k = node_get n k"

definition get_default :: "node \<Rightarrow> string \<Rightarrow> val \<Rightarrow> val option" where
  "get_default n k v = (case node_get n k of None \<Rightarrow> Some v | Some w \<Rightarrow> Some w)"

text \<open>
  The blanket handler that closes every route:
  \<^verbatim>\<open>except Exception as e: raise HTTPException(status_code=500, detail=str(e))\<close>.
  It catches every exception of the \<^verbatim>\<open>try\<close> block, the block's own
  \<^verbatim>\<open>HTTPException\<close>s among them. What the store has done by then stays done: every
  \<^verbatim>\<open>db.run\<close> commits on its own.
\<close>

definition try_except :: "(exn + 'a) \<times> db \<Rightarrow> (exn + 'a) \<times> db" where
  "try_except r = (case r of
       (Inl e, d) \<Rightarrow> (Inl (HTTPException 500 (StrExn e)), d)
     | (Inr v, d) \<Rightarrow> (Inr v, d))"

section \<open>Order routes\<close>

subsection \<open>create_order\<close>

text \<open>
  The statement of \<^verbatim>\<open>create_order\<close>: one row for every pair of a user with the
  caller's email and a product with the given element id whose \<^verbatim>\<open>is_available\<close> is
  \<^verbatim>\<open>true\<close>; for every row an order node and its two relationships are created. The
  quantity is an integer parameter: one that does not fit is refused by the driver.
\<close>

fun create_order_rows :: "(node \<times> node) list \<Rightarrow> int \<Rightarrow> nat \<Rightarrow> db \<Rightarrow> (node \<times> node) list \<times> db" where
  "create_order_rows [] q now d = ([], d)"
| "create_order_rows ((c, p) # rs) q now d =
     (let ord = new_node d [(''quantity'', VInt q), (''status'', VStr ''pending''),
                            (''created_at'', VTime now)];
          d' = d\<lparr>orders := orders d @ [ord],
                 placed := placed d @ [(node_id c, node_id ord)],
                 for_product := for_product d @ [(node_id ord, node_id p)],
                 next_id := Suc (next_id d)\<rparr>;
          (out, d'') = create_order_rows rs q now d'
      in ((ord, p) # out, d''))"

definition orderable :: "string \<Rightarrow> node \<Rightarrow> bool" where
  "orderable pid p = (element_id p = pid \<and> node_get p ''is_available'' = Some (VBool True))"

definition run_create_order :: "string \<Rightarrow> string \<Rightarrow> int \<Rightarrow> nat \<Rightarrow> db \<Rightarrow> (exn + (node \<times> node) list) \<times> db" where
  "run_create_order em pid q now d =
     (if \<not> fits_int64 q then (Inl OverflowError, d)
      else (case create_order_rows
                   (concat (map (\<lambda>c. map (\<lambda>p. (c, p)) (filter (orderable pid) (products d)))
                                (filter (has_email em) (users d))))
                   q now (tick d) of
              (rows, d') \<Rightarrow> (Inr rows, d')))"

definition created_order_response :: "node \<Rightarrow> order_response" where
  "created_order_response ord =
     \<lparr>or_id = StrNat (node_id ord), or_status = getitem ord ''status'',
      or_quantity = getitem ord ''quantity'',
      or_created_at = StrVal (getitem ord ''created_at''), or_product_name = None,
      or_customer_name = None, or_baker_name = None\<rparr>"

definition create_order_body :: "user \<Rightarrow> order_create \<Rightarrow> nat \<Rightarrow> db \<Rightarrow> (exn + order_response) \<times> db" where
  "create_order_body cu od now d =
     (if role cu \<noteq> ''customer''
      then (Inl (HTTPException 403 (Lit ''Only customers can create orders'')), d)
      else (case run_create_order (email cu) (product_id od) (quantity od) now d of
              (Inl e, d') \<Rightarrow> (Inl e, d')
            | (Inr rows, d') \<Rightarrow>
                (case single rows of
                   None \<Rightarrow> (Inl (HTTPException 400 (Lit ''Failed to create order'')), d')
                 | Some (ord, p) \<Rightarrow> (Inr (created_order_response ord), d'))))"

definition create_order :: "user \<Rightarrow> order_create \<Rightarrow> nat \<Rightarrow> db \<Rightarrow> (exn + order_response) \<times> db" where
  "create_order cu od now d = try_except (create_order_body cu od now d)"

subsection \<open>Pattern matching on relationships\<close>

text \<open>
  \<^verbatim>\<open>(b)-[:BAKES]->(p:Product)\<close>, \<^verbatim>\<open>(p)<-[:FOR_PRODUCT]-(o:Order)\<close>,
  \<^verbatim>\<open>(c:User)-[:PLACED]->(o)\<close> and \<^verbatim>\<open>(b:User)-[:BAKES]->(p)\<close>: one result for every
  relationship of the kind that ends at a node of the label.
\<close>

definition products_baked_by :: "db \<Rightarrow> node \<Rightarrow> node list" where
  "products_baked_by d b =
     [p. (bid, pid) \<leftarrow> bakes d, bid = node_id b, p \<leftarrow> products d, node_id p = pid]"

definition orders_for :: "db \<Rightarrow> node \<Rightarrow> node list" where
  "orders_for d p =
     [ord. (oid, pid) \<leftarrow> for_product d, pid = node_id p, ord \<leftarrow> orders d, node_id ord = oid]"

definition customers_of :: "db \<Rightarrow> node \<Rightarrow> node list" where
  "customers_of d ord =
     [c. (cid, oid) \<leftarrow> placed d, oid = node_id ord, c \<leftarrow> users d, node_id c = cid]"

definition bakers_of :: "db \<Rightarrow> node \<Rightarrow> node list" where
  "bakers_of d p =
     [b. (bid, pid) \<leftarrow> bakes d, pid = node_id p, b \<leftarrow> users d, node_id b = bid]"

text \<open>\<^verbatim>\<open>OPTIONAL MATCH\<close>: one row with \<^verbatim>\<open>null\<close> when nothing matches.\<close>

definition optional_match :: "'a list \<Rightarrow> 'a option list" where
  "optional_match xs = (if xs = [] then [None] else map Some xs)"

text \<open>
  \<^verbatim>\<open>c["name"] if c else None\<close>. A node of the driver is a mapping, so it is false when
  it has no property at all, and \<^verbatim>\<open>None\<close> is false.
\<close>

definition name_if :: "node option \<Rightarrow> val option" where
  "name_if c = (case c of
       None \<Rightarrow> None
     | Some n \<Rightarrow> (if props n = [] then None else getitem n ''name''))"

subsection \<open>get_baker_orders\<close>

definition run_baker_orders :: "string \<Rightarrow> db \<Rightarrow> (node \<times> node \<times> node option) list \<times> db" where
  "run_baker_orders em d =
     (order_by_desc (\<lambda>(ord, p, c). created_key ord)
        [(ord, p, c). b \<leftarrow> users d, has_email em b, p \<leftarrow> products_baked_by d b,
                      ord \<leftarrow> orders_for d p, c \<leftarrow> optional_match (customers_of d ord)],
      tick d)"

definition baker_order_response :: "node \<times> node \<times> node option \<Rightarrow> order_response" where
  "baker_order_response r = (case r of (ord, p, c) \<Rightarrow>
     \<lparr>or_id = StrNat (node_id ord),
      or_status = get_default ord ''status'' (VStr ''pending''),
      or_quantity = get_default ord ''quantity'' (VInt 0),
      or_created_at = StrVal (node_get ord ''created_at''),
      or_product_name = getitem p ''name'', or_customer_name = name_if c,
      or_baker_name = None\<rparr>)"

definition get_baker_orders_body :: "user \<Rightarrow> db \<Rightarrow> (exn + order_response list) \<times> db" where
  "get_baker_orders_body cu d =
     (if role cu \<noteq> ''baker''
      then (Inl (HTTPException 403 (Lit ''Access denied: Not a baker'')), d)
      else (case run_baker_orders (email cu) d of
              (rows, d') \<Rightarrow> (Inr (map baker_order_response rows), d')))"

definition get_baker_orders :: "user \<Rightarrow> db \<Rightarrow> (exn + order_response list) \<times> db" where
  "get_baker_orders cu d = try_except (get_baker_orders_body cu d)"

subsection \<open>get_all_orders\<close>

definition run_all_orders :: "db \<Rightarrow> (node \<times> node \<times> node option \<times> node option) list \<times> db" where
  "run_all_orders d =
     (order_by_desc (\<lambda>(ord, p, c, b). created_key ord)
        [(ord, p, c, b). (oid, pid) \<leftarrow> for_product d, ord \<leftarrow> orders d, node_id ord = oid,
                         p \<leftarrow> products d, node_id p = pid,
                         c \<leftarrow> optional_match (customers_of d ord),
                         b \<leftarrow> optional_match (bakers_of d p)],
      tick d)"

definition admin_order_response :: "node \<times> node \<times> node option \<times> node option \<Rightarrow> order_response" where
  "admin_order_response r = (case r of (ord, p, c, b) \<Rightarrow>
     \<lparr>or_id = StrNat (node_id ord), or_status = getitem ord ''status'',
      or_quantity = getitem ord ''quantity'',
      or_created_at = StrVal (getitem ord ''created_at''),
      or_product_name = getitem p ''name'',
      or_customer_name = name_if c, or_baker_name = name_if b\<rparr>)"

definition get_all_orders_body :: "user \<Rightarrow> db \<Rightarrow> (exn + order_response list) \<times> db" where
  "get_all_orders_body cu d =
     (if role cu \<noteq> ''admin''
      then (Inl (HTTPException 403 (Lit ''Admins only'')), d)
      else (case run_all_orders d of
              (rows, d') \<Rightarrow> (Inr (map admin_order_response rows), d')))"

definition get_all_orders :: "user \<Rightarrow> db \<Rightarrow> (exn + order_response list) \<times> db" where
  "get_all_orders cu d = try_except (get_all_orders_body cu d)"

subsection \<open>update_order_status\<close>

text \<open>
  \<^verbatim>\<open>MATCH (o:Order) WHERE elementId(o) = $order_id SET o.status = $status,
  o.updated_at = datetime()\<close>: every order with the element id is assigned, and a
  statement that matches nothing is no error. The handler does not read the result.
\<close>

definition assign_status :: "string \<Rightarrow> nat \<Rightarrow> node \<Rightarrow> node" where
  "assign_status st now ord = set_prop ''updated_at'' (VTime now) (set_prop ''status'' (VStr st) ord)"

definition run_update_order_status :: "string \<Rightarrow> string \<Rightarrow> nat \<Rightarrow> db \<Rightarrow> db" where
  "run_update_order_status oid st now d =
     (tick d)\<lparr>orders := map (\<lambda>ord. if element_id ord = oid then assign_status st now ord else ord)
                          (orders d)\<rparr>"

text \<open>A handler that returns \<^verbatim>\<open>{"message": m}\<close> returns \<open>m\<close> here.\<close>

definition update_order_status_body :: "user \<Rightarrow> string \<Rightarrow> string \<Rightarrow> nat \<Rightarrow> db \<Rightarrow> (exn + string) \<times> db" where
  "update_order_status_body cu order_id new_status now d =
     (if role cu \<notin> set [''baker'', ''admin'']
      then (Inl (HTTPException 403 (Lit ''Not authorized'')), d)
      else (Inr ''Order status updated successfully'',
            run_update_order_status order_id new_status now d))"

definition update_order_status :: "user \<Rightarrow> string \<Rightarrow> string \<Rightarrow> nat \<Rightarrow> db \<Rightarrow> (exn + string) \<times> db" where
  "update_order_status cu order_id new_status now d =
     try_except (update_order_status_body cu order_id new_status now d)"

section \<open>Product routes\<close>

definition product_response_of :: "node \<Rightarrow> product_response" where
  "product_response_of p =
     \<lparr>pr_id = StrNat (node_id p), pr_name = getitem p ''name'',
      pr_description = node_get p ''description'', pr_price = getitem p ''price'',
      pr_stock_quantity = getitem p ''stock_quantity'',
      pr_is_available = getitem p ''is_available'',
      pr_created_at = StrVal (getitem p ''created_at'')\<rparr>"

subsection \<open>create_product\<close>

text \<open>
  One product and one \<^verbatim>\<open>BAKES\<close> relationship for every user with the caller's email.
  A property whose value is \<^verbatim>\<open>null\<close> is not stored, so a product created without a
  description has no such property. The stock quantity is an integer parameter.
\<close>

definition product_props :: "product_create \<Rightarrow> nat \<Rightarrow> (string \<times> val) list" where
  "product_props pd now =
     [(''name'', VStr (name pd))]
     @ (case description pd of None \<Rightarrow> [] | Some t \<Rightarrow> [(''description'', VStr t)])
     @ [(''price'', VNum (price pd)), (''stock_quantity'', VInt (stock_quantity pd)),
        (''is_available'', VBool True), (''created_at'', VTime now)]"

fun create_product_rows :: "node list \<Rightarrow> product_create \<Rightarrow> nat \<Rightarrow> db \<Rightarrow> node list \<times> db" where
  "create_product_rows [] pd now d = ([], d)"
| "create_product_rows (b # bs) pd now d =
     (let p = new_node d (product_props pd now);
          d' = d\<lparr>products := products d @ [p],
                 bakes := bakes d @ [(node_id b, node_id p)],
                 next_id := Suc (next_id d)\<rparr>;
          (out, d'') = create_product_rows bs pd now d'
      in (p # out, d''))"

definition run_create_product :: "string \<Rightarrow> product_create \<Rightarrow> nat \<Rightarrow> db \<Rightarrow> (exn + node list) \<times> db" where
  "run_create_product em pd now d =
     (if \<not> fits_int64 (stock_quantity pd) then (Inl OverflowError, d)
      else (case create_product_rows (filter (has_email em) (users d)) pd now (tick d) of
              (rows, d') \<Rightarrow> (Inr rows, d')))"

definition create_product_body :: "user \<Rightarrow> product_create \<Rightarrow> nat \<Rightarrow> db \<Rightarrow> (exn + product_response) \<times> db" where
  "create_product_body cu pd now d =
     (if role cu \<noteq> ''baker''
      then (Inl (HTTPException 403 (Lit ''Only bakers can create products'')), d)
      else (case run_create_product (email cu) pd now d of
              (Inl e, d') \<Rightarrow> (Inl e, d')
            | (Inr rows, d') \<Rightarrow>
                (case single rows of
                   None \<Rightarrow> (Inl (HTTPException 500 (Lit ''Failed to create product'')), d')
                 | Some p \<Rightarrow> (Inr (product_response_of p), d'))))"

definition create_product :: "user \<Rightarrow> product_create \<Rightarrow> nat \<Rightarrow> db \<Rightarrow> (exn + product_response) \<times> db" where
  "create_product cu pd now d = try_except (create_product_body cu pd now d)"

subsection \<open>get_baker_products\<close>

definition run_baker_products :: "string \<Rightarrow> db \<Rightarrow> node list \<times> db" where
  "run_baker_products em d =
     (order_by_desc created_key
        [p. b \<leftarrow> users d, has_email em b, p \<leftarrow> products_baked_by d b],
      tick d)"

definition get_baker_products_body :: "user \<Rightarrow> db \<Rightarrow> (exn + product_response list) \<times> db" where
  "get_baker_products_body cu d =
     (if role cu \<noteq> ''baker''
      then (Inl (HTTPException 403 (Lit ''Access denied: Not a baker'')), d)
      else (case run_baker_products (email cu) d of
              (rows, d') \<Rightarrow> (Inr (map product_response_of rows), d')))"

definition get_baker_products :: "user \<Rightarrow> db \<Rightarrow> (exn + product_response list) \<times> db" where
  "get_baker_products cu d = try_except (get_baker_products_body cu d)"

subsection \<open>get_products\<close>

text \<open>
  The handler collects the pieces of its statement in the list \<^verbatim>\<open>query\<close>. The first
  piece is the text \<^verbatim>\<open>"MATCH (p:Product) WHERE p.is_available = true"\<close>; the others are
  conditions, here with the value of the parameter each names.
\<close>

datatype clause =
    MatchAvailable
  | NameOrDescContains string
  | PriceAtLeast real
  | PriceAtMost real

fun str_prefix :: "string \<Rightarrow> string \<Rightarrow> bool" where
  "str_prefix [] ys = True"
| "str_prefix (x # xs) [] = False"
| "str_prefix (x # xs) (y # ys) = (x = y \<and> str_prefix xs ys)"

text \<open>\<^verbatim>\<open>t CONTAINS s\<close>: \<open>s\<close> occurs in \<open>t\<close> as a run of characters, case and all.\<close>

fun str_contains :: "string \<Rightarrow> string \<Rightarrow> bool" where
  "str_contains [] s = (s = [])"
| "str_contains (c # cs) s = (str_prefix s (c # cs) \<or> str_contains cs s)"

definition val_contains :: "val option \<Rightarrow> string \<Rightarrow> bool" where
  "val_contains v s = (case v of Some (VStr t) \<Rightarrow> str_contains t s | _ \<Rightarrow> False)"

definition num_of :: "val option \<Rightarrow> real option" where
  "num_of v = (case v of Some (VNum x) \<Rightarrow> Some x | Some (VInt i) \<Rightarrow> Some (of_int i) | _ \<Rightarrow> None)"

text \<open>
  A condition of \<^verbatim>\<open>WHERE\<close> keeps a row only when it is true: a comparison with a
  missing property is \<^verbatim>\<open>null\<close> and drops the row.
\<close>

fun clause_holds :: "node \<Rightarrow> clause \<Rightarrow> bool" where
  "clause_holds p MatchAvailable = (node_get p ''is_available'' = Some (VBool True))"
| "clause_holds p (NameOrDescContains s) =
     (val_contains (node_get p ''name'') s \<or> val_contains (node_get p ''description'') s)"
| "clause_holds p (PriceAtLeast m) =
     (case num_of (node_get p ''price'') of None \<Rightarrow> False | Some x \<Rightarrow> m \<le> x)"
| "clause_holds p (PriceAtMost m) =
     (case num_of (node_get p ''price'') of None \<Rightarrow> False | Some x \<Rightarrow> x \<le> m)"

text \<open>
  The statement \<^verbatim>\<open>"MATCH (p:Product) WHERE " + " AND ".join(cs) + " RETURN p ORDER BY
  p.created_at DESC"\<close>. With no condition after \<^verbatim>\<open>WHERE\<close>, or with the
  \<^verbatim>\<open>MATCH ... WHERE ...\<close> text among the conditions, it does not parse.
\<close>

definition run_products_where :: "clause list \<Rightarrow> db \<Rightarrow> (exn + node list) \<times> db" where
  "run_products_where cs d =
     (if cs = [] \<or> MatchAvailable \<in> set cs then (Inl CypherSyntaxError, tick d)
      else (Inr (order_by_desc created_key
                   (filter (\<lambda>p. list_all (clause_holds p) cs) (products d))),
            tick d))"

definition products_query :: "string option \<Rightarrow> real option \<Rightarrow> real option \<Rightarrow> clause list" where
  "products_query search min_price max_price =
     [MatchAvailable]
     @ (case search of None \<Rightarrow> [] | Some s \<Rightarrow> if s = [] then [] else [NameOrDescContains s])
     @ (case min_price of None \<Rightarrow> [] | Some m \<Rightarrow> [PriceAtLeast m])
     @ (case max_price of None \<Rightarrow> [] | Some m \<Rightarrow> [PriceAtMost m])"

definition get_products_body :: "string option \<Rightarrow> real option \<Rightarrow> real option \<Rightarrow> db \<Rightarrow> (exn + product_response list) \<times> db" where
  "get_products_body search min_price max_price d =
     (let query = products_query search min_price max_price
      in (case run_products_where (tl query) d of
            (Inl e, d') \<Rightarrow> (Inl e, d')
          | (Inr rows, d') \<Rightarrow> (Inr (map product_response_of rows), d')))"

definition get_products :: "string option \<Rightarrow> real option \<Rightarrow> real option \<Rightarrow> db \<Rightarrow> (exn + product_response list) \<times> db" where
  "get_products search min_price max_price d =
     try_except (get_products_body search min_price max_price d)"

subsection \<open>update_product\<close>

text \<open>
  The rows of \<^verbatim>\<open>MATCH (b:User {email: $email})-[:BAKES]->(p:Product) WHERE
  elementId(p) = $product_id\<close>: the products with the element id that the caller bakes.
\<close>

definition owned_products :: "db \<Rightarrow> string \<Rightarrow> string \<Rightarrow> node list" where
  "owned_products d em pid =
     [p. b \<leftarrow> users d, has_email em b, p \<leftarrow> products_baked_by d b, element_id p = pid]"

text \<open>
  \<^verbatim>\<open>product_data.dict()\<close> lists every field of the update schema with its value or
  \<^verbatim>\<open>None\<close>; \<^verbatim>\<open>updates\<close> keeps the fields whose value is not \<^verbatim>\<open>None\<close>. The schema
  itself is declared outside these files, so the fields are whatever the list names.
\<close>

type_synonym product_update = "(string \<times> val option) list"

fun non_null :: "product_update \<Rightarrow> (string \<times> val) list" where
  "non_null [] = []"
| "non_null ((k, None) # kvs) = non_null kvs"
| "non_null ((k, Some v) # kvs) = (k, v) # non_null kvs"

definition apply_updates :: "(string \<times> val) list \<Rightarrow> nat \<Rightarrow> node \<Rightarrow> node" where
  "apply_updates updates now p =
     set_prop ''updated_at'' (VTime now) (fold (\<lambda>(k, v). set_prop k v) updates p)"

text \<open>
  \<^verbatim>\<open>MATCH (p:Product) WHERE elementId(p) = $product_id SET {set_clause},
  p.updated_at = datetime()\<close>, where \<^verbatim>\<open>set_clause\<close> joins \<^verbatim>\<open>p.k = $k\<close> for every key
  of \<^verbatim>\<open>updates\<close> and \<^verbatim>\<open>$k\<close> is the key's value. With no key the text reads
  \<^verbatim>\<open>SET , p.updated_at = datetime()\<close>, which does not parse. The values are
  parameters, so the driver refuses an integer among them that does not fit.
\<close>

definition run_update_product :: "string \<Rightarrow> (string \<times> val) list \<Rightarrow> nat \<Rightarrow> db \<Rightarrow> (exn + unit) \<times> db" where
  "run_update_product pid updates now d =
     (if \<not> list_all (\<lambda>(k, v). packable v) updates then (Inl OverflowError, d)
      else if updates = [] then (Inl CypherSyntaxError, tick d)
      else (Inr (),
            (tick d)\<lparr>products := map (\<lambda>p. if element_id p = pid then apply_updates updates now p else p)
                                   (products d)\<rparr>))"

definition run_product_by_id :: "string \<Rightarrow> db \<Rightarrow> node list \<times> db" where
  "run_product_by_id pid d = (filter (\<lambda>p. element_id p = pid) (products d), tick d)"

text \<open>
  The second \<^verbatim>\<open>db.run\<close> passes \<^verbatim>\<open>product_id=product_id, **updates\<close>: a key
  \<^verbatim>\<open>product_id\<close> among the updates is the same keyword argument twice, which Python
  refuses before the call.
\<close>

definition update_product_body :: "user \<Rightarrow> string \<Rightarrow> product_update \<Rightarrow> nat \<Rightarrow> db \<Rightarrow> (exn + product_response) \<times> db" where
  "update_product_body cu pid product_data now d =
     (case single (owned_products d (email cu) pid) of
        None \<Rightarrow> (Inl (HTTPException 404 (Lit ''Product not found or not owned by baker'')), tick d)
      | Some _ \<Rightarrow>
          (let updates = non_null product_data
           in if ''product_id'' \<in> set (map fst updates) then (Inl TypeError, tick d)
              else (case run_update_product pid updates now (tick d) of
                      (Inl e, d') \<Rightarrow> (Inl e, d')
                    | (Inr _, d') \<Rightarrow>
                        (case run_product_by_id pid d' of
                           (rows, d'') \<Rightarrow>
                             (case single rows of
                                None \<Rightarrow> (Inl TypeError, d'')
                              | Some p \<Rightarrow> (Inr (product_response_of p), d''))))))"

definition update_product :: "user \<Rightarrow> string \<Rightarrow> product_update \<Rightarrow> nat \<Rightarrow> db \<Rightarrow> (exn + product_response) \<times> db" where
  "update_product cu pid product_data now d =
     try_except (update_product_body cu pid product_data now d)"

subsection \<open>delete_product\<close>

definition mark_unavailable :: "nat \<Rightarrow> node \<Rightarrow> node" where
  "mark_unavailable now p =
     set_prop ''updated_at'' (VTime now) (set_prop ''is_available'' (VBool False) p)"

definition run_delete_product :: "string \<Rightarrow> string \<Rightarrow> nat \<Rightarrow> db \<Rightarrow> db" where
  "run_delete_product em pid now d =
     (tick d)\<lparr>products := map (\<lambda>p. if p \<in> set (owned_products d em pid)
                                    then mark_unavailable now p else p)
                            (products d)\<rparr>"

definition delete_product_body :: "user \<Rightarrow> string \<Rightarrow> nat \<Rightarrow> db \<Rightarrow> (exn + string) \<times> db" where
  "delete_product_body cu pid now d =
     (Inr ''Product marked as unavailable'', run_delete_product (email cu) pid now d)"

definition delete_product :: "user \<Rightarrow> string \<Rightarrow> nat \<Rightarrow> db \<Rightarrow> (exn + string) \<times> db" where
  "delete_product cu pid now d = try_except (delete_product_body cu pid now d)"

section \<open>Notions the properties are stated with\<close>

text \<open>The caller with email \<open>em\<close> owns \<open>p\<close>: a user with that email bakes it.\<close>

definition owns :: "db \<Rightarrow> string \<Rightarrow> node \<Rightarrow> bool" where
  "owns d em p = list_ex (\<lambda>b. has_email em b \<and> (node_id b, node_id p) \<in> set (bakes d)) (users d)"

text \<open>The HTTP status a handler's result carries, when it is a framework exception.\<close>

definition status_of :: "exn + 'a \<Rightarrow> nat option" where
  "status_of r = (case r of Inl (HTTPException c _) \<Rightarrow> Some c | _ \<Rightarrow> None)"

section \<open>A small store\<close>

text \<open>
  Two bakers, a customer and an admin; Alice bakes bread (available) and cake (marked
  unavailable), Bob bakes pie. Carol has ordered bread and pie; a third order, for cake,
  has lost its \<^verbatim>\<open>PLACED\<close> relationship.
\<close>

definition alice :: user where "alice = \<lparr>email = ''alice@b'', role = ''baker''\<rparr>"
definition bob :: user where "bob = \<lparr>email = ''bob@b'', role = ''baker''\<rparr>"
definition carol :: user where "carol = \<lparr>email = ''carol@c'', role = ''customer''\<rparr>"
definition dave :: user where "dave = \<lparr>email = ''dave@a'', role = ''admin''\<rparr>"

definition user_node :: "nat \<Rightarrow> string \<Rightarrow> string \<Rightarrow> string \<Rightarrow> node" where
  "user_node i em nm rl =
     \<lparr>node_id = i, element_id = str_nat i,
      props = [(''email'', VStr em), (''name'', VStr nm), (''role'', VStr rl)]\<rparr>"

definition product_node :: "nat \<Rightarrow> string \<Rightarrow> real \<Rightarrow> bool \<Rightarrow> nat \<Rightarrow> node" where
  "product_node i nm pc av t =
     \<lparr>node_id = i, element_id = str_nat i,
      props = [(''name'', VStr nm), (''price'', VNum pc), (''stock_quantity'', VInt 5),
               (''is_available'', VBool av), (''created_at'', VTime t)]\<rparr>"

definition order_node :: "nat \<Rightarrow> int \<Rightarrow> nat \<Rightarrow> node" where
  "order_node i q t =
     \<lparr>node_id = i, element_id = str_nat i,
      props = [(''quantity'', VInt q), (''status'', VStr ''pending''), (''created_at'', VTime t)]\<rparr>"

definition shop :: db where
  "shop = \<lparr>users = [user_node 1 ''alice@b'' ''Alice'' ''baker'',
                     user_node 2 ''bob@b'' ''Bob'' ''baker'',
                     user_node 3 ''carol@c'' ''Carol'' ''customer'',
                     user_node 4 ''dave@a'' ''Dave'' ''admin''],
            products = [product_node 5 ''Bread'' 10 True 100,
                        product_node 6 ''Cake'' 15 False 110,
                        product_node 7 ''Pie'' 12 True 120],
            orders = [order_node 8 2 200, order_node 9 1 210, order_node 10 3 220],
            bakes = [(1, 5), (1, 6), (2, 7)],
            placed = [(3, 8), (3, 9)],
            for_product = [(8, 5), (9, 7), (10, 6)],
            next_id = 11,
            runs = 0\<rparr>"

section \<open>Basic facts\<close>

lemma try_except_Inl: "try_except (Inl e, d) = (Inl (HTTPException 500 (StrExn e)), d)"
  by (simp add: try_except_def)

lemma try_except_Inr: "try_except (Inr v, d) = (Inr v, d)"
  by (simp add: try_except_def)

lemma fst_try_except:
  "fst r = Inl e \<Longrightarrow> fst (try_except r) = Inl (HTTPException 500 (StrExn e))"
  by (cases r) (simp add: try_except_def)

lemma node_get_set_prop:
  "node_get (set_prop k v n) k' = (if k' = k then Some v else node_get n k')"
  by (simp add: node_get_def set_prop_def update_conv')

lemma node_id_set_prop [simp]: "node_id (set_prop k v n) = node_id n"
  by (simp add: set_prop_def)

lemma element_id_set_prop [simp]: "element_id (set_prop k v n) = element_id n"
  by (simp add: set_prop_def)


lemma set_order_by_desc [simp]: "set (order_by_desc k rows) = set rows"
  by (simp add: order_by_desc_def)


lemma products_baked_by_iff:
  "p \<in> set (products_baked_by d b) \<longleftrightarrow>
     p \<in> set (products d) \<and> (node_id b, node_id p) \<in> set (bakes d)"
  by (auto simp: products_baked_by_def)


lemma customers_of_iff:
  "c \<in> set (customers_of d ord) \<longleftrightarrow>
     c \<in> set (users d) \<and> (node_id c, node_id ord) \<in> set (placed d)"
  by (auto simp: customers_of_def)


lemma owns_iff:
  "owns d em p \<longleftrightarrow>
     (\<exists>b \<in> set (users d). has_email em b \<and> (node_id b, node_id p) \<in> set (bakes d))"
  by (auto simp: owns_def list_ex_iff)

lemma owned_products_iff:
  "p \<in> set (owned_products d em pid) \<longleftrightarrow>
     p \<in> set (products d) \<and> element_id p = pid \<and> owns d em p"
  by (auto simp: owned_products_def products_baked_by_iff owns_iff)

lemma non_null_Nil: "non_null data = [] \<longleftrightarrow> (\<forall>kv \<in> set data. snd kv = None)"
  by (induction data rule: non_null.induct) auto

lemma concat_map_Nil: "concat (map (\<lambda>c. []) xs) = []"
  by (induction xs) simp_all

lemma run_create_order_no_product:
  "filter (orderable pid) (products d) = [] \<Longrightarrow>
     run_create_order em pid q now d =
       (if fits_int64 q then (Inr [], tick d) else (Inl OverflowError, d))"
  by (simp add: run_create_order_def concat_map_Nil)

lemma snd_try_except: "snd (try_except r) = snd r"
  by (cases r) (simp add: try_except_def split: sum.splits)

lemma fold_set_prop_get:
  "node_get (fold (\<lambda>(k, v). set_prop k v) us p) k =
     (case map_of (rev us) k of Some v \<Rightarrow> Some v | None \<Rightarrow> node_get p k)"
proof (induction us arbitrary: p)
  case Nil
  then show ?case by simp
next
  case (Cons u us)
  obtain k' v' where u: "u = (k', v')"
    by (cases u) auto
  show ?case
    by (simp add: Cons.IH u node_get_set_prop map_add_def split: option.splits)
qed

lemma apply_updates_get:
  "node_get (apply_updates us now p) k =
     (if k = ''updated_at'' then Some (VTime now)
      else case map_of (rev us) k of Some v \<Rightarrow> Some v | None \<Rightarrow> node_get p k)"
  by (simp add: apply_updates_def node_get_set_prop fold_set_prop_get)

lemma assign_status_get:
  "node_get (assign_status st now ord) k =
     (if k = ''updated_at'' then Some (VTime now)
      else if k = ''status'' then Some (VStr st) else node_get ord k)"
  by (simp add: assign_status_def node_get_set_prop)

lemma assign_status_ids [simp]:
  "node_id (assign_status st now ord) = node_id ord"
  "element_id (assign_status st now ord) = element_id ord"
  by (simp_all add: assign_status_def)

lemma mark_unavailable_get:
  "node_get (mark_unavailable now p) ''is_available'' = Some (VBool False)"
  by (simp add: mark_unavailable_def node_get_set_prop)

lemma delete_product_eq:
  "delete_product cu pid now d =
     (Inr ''Product marked as unavailable'', run_delete_product (email cu) pid now d)"
  by (simp add: delete_product_def delete_product_body_def try_except_Inr)

lemma run_delete_product_nth:
  assumes "i < length (products d)"
  shows "products (run_delete_product em pid now d) ! i =
     (if owns d em (products d ! i) \<and> element_id (products d ! i) = pid
      then mark_unavailable now (products d ! i) else products d ! i)"
  using assms by (auto simp: run_delete_product_def tick_def owned_products_iff)

lemma run_delete_product_length [simp]:
  "length (products (run_delete_product em pid now d)) = length (products d)"
  by (simp add: run_delete_product_def tick_def)

lemma optional_match_iff:
  "c \<in> set (optional_match xs) \<longleftrightarrow> (case c of None \<Rightarrow> xs = [] | Some x \<Rightarrow> x \<in> set xs)"
  by (cases c) (auto simp: optional_match_def)




section \<open>The listing of products\<close>

text \<open>
  The availability condition is the head of \<^verbatim>\<open>query\<close>, and the statement is joined
  from \<^verbatim>\<open>query[1:]\<close>: the condition never reaches the store.
\<close>

lemma products_query_tl:
  "MatchAvailable \<notin> set (tl (products_query search min_price max_price))"
  by (auto simp: products_query_def split: option.splits)

text \<open>
  Claim C1: whatever the filters, \<^verbatim>\<open>list_products\<close> returns no product whose
  \<^verbatim>\<open>is_available\<close> is false. The handler's docstring and its first \<^verbatim>\<open>query\<close> entry
  say so, but the statement it runs has lost the condition: on the store \<open>shop\<close>, with
  \<^verbatim>\<open>min_price=0\<close>, the answer lists Cake, whose \<^verbatim>\<open>is_available\<close> is false.
\<close>

theorem get_products_returns_unavailable:
  "map_sum id (map (\<lambda>r. (pr_name r, pr_is_available r)))
       (fst (get_products None (Some 0) None shop)) =
     Inr [(Some (VStr ''Pie''), Some (VBool True)), (Some (VStr ''Cake''), Some (VBool False)),
          (Some (VStr ''Bread''), Some (VBool True))]"
  by code_simp

section \<open>Creating an order\<close>

text \<open>
  Claim C2: a caller whose role is not \<^verbatim>\<open>customer\<close> gets status 403 from
  \<^verbatim>\<open>create_order\<close>, and the store is not touched. The handler raises the 403 inside its
  own \<^verbatim>\<open>try\<close> block, so the client sees 500: here for the baker Alice. The store is
  indeed left as it was, its count of statements included.
\<close>

theorem create_order_non_customer_500:
  "create_order alice \<lparr>product_id = ''5'', quantity = 2\<rparr> 300 shop =
     (Inl (HTTPException 500
            (StrExn (HTTPException 403 (Lit ''Only customers can create orders'')))), shop)
   \<and> status_of (fst (create_order alice \<lparr>product_id = ''5'', quantity = 2\<rparr> 300 shop)) = Some 500"
  by code_simp

text \<open>
  Claim C3: for a product whose \<^verbatim>\<open>is_available\<close> is false, \<^verbatim>\<open>create_order\<close> by a
  customer fails with status 400. The statement matches nothing and the handler raises
  its 400, which the same \<^verbatim>\<open>except\<close> turns into 500: here for Carol and Cake.
\<close>

theorem create_order_unavailable_500:
  "node_get (products shop ! 1) ''is_available'' = Some (VBool False)
   \<and> element_id (products shop ! 1) = ''6''
   \<and> create_order carol \<lparr>product_id = ''6'', quantity = 2\<rparr> 300 shop =
     (Inl (HTTPException 500 (StrExn (HTTPException 400 (Lit ''Failed to create order'')))),
      tick shop)
   \<and> status_of (fst (create_order carol \<lparr>product_id = ''6'', quantity = 2\<rparr> 300 shop)) = Some 500"
  by code_simp

section \<open>Updating a product\<close>

text \<open>
  When the caller owns the product, at least one field is not \<^verbatim>\<open>None\<close> and the
  integers among the fields fit the store, the update assigns the fields that are not \<^verbatim>\<open>None\<close> and \<^verbatim>\<open>updated_at\<close> on the
  products with the element id, and every other property of every product keeps its
  value.
\<close>

lemma update_product_frame:
  assumes owner: "owned_products d (email cu) pid \<noteq> []"
    and some: "non_null product_data \<noteq> []"
    and noclash: "''product_id'' \<notin> fst ` set (non_null product_data)"
    and fits: "list_all (\<lambda>(k, v). packable v) (non_null product_data)"
    and after: "d' = snd (update_product cu pid product_data now d)"
  shows "length (products d') = length (products d)
       \<and> (\<forall>i < length (products d). \<forall>k.
            node_get (products d' ! i) k =
              (if element_id (products d ! i) \<noteq> pid then node_get (products d ! i) k
               else if k = ''updated_at'' then Some (VTime now)
               else case map_of (rev (non_null product_data)) k of
                      Some v \<Rightarrow> Some v
                    | None \<Rightarrow> node_get (products d ! i) k))"
proof -
  from owner obtain p where p: "single (owned_products d (email cu) pid) = Some p"
    by (cases "owned_products d (email cu) pid") (simp_all add: single_def)
  have "products d' =
      map (\<lambda>p. if element_id p = pid then apply_updates (non_null product_data) now p else p)
        (products d)"
    using p some noclash fits
    by (simp add: after update_product_def snd_try_except update_product_body_def
          run_update_product_def run_product_by_id_def tick_def Let_def split: option.splits)
  then show ?thesis
    by (simp add: apply_updates_get)
qed

text \<open>
  Claim C4: every \<^verbatim>\<open>update_product\<close> by the owning baker assigns exactly the supplied
  non-null fields and \<^verbatim>\<open>updated_at\<close>. With no such field the \<^verbatim>\<open>SET\<close> clause starts
  with a comma, the store rejects the statement and nothing is assigned, \<^verbatim>\<open>updated_at\<close>
  neither: here Bob updates his Pie with every field \<^verbatim>\<open>None\<close>.
\<close>

theorem update_product_all_null_no_update:
  "owns shop (email bob) (products shop ! 2) \<and> element_id (products shop ! 2) = ''7''
   \<and> status_of (fst (update_product bob ''7''
        [(''name'', None), (''description'', None), (''price'', None),
         (''stock_quantity'', None), (''is_available'', None)] 300 shop)) = Some 500
   \<and> node_get (products (snd (update_product bob ''7''
        [(''name'', None), (''description'', None), (''price'', None),
         (''stock_quantity'', None), (''is_available'', None)] 300 shop)) ! 2) ''updated_at'' = None"
  by code_simp

text \<open>
  Claim C5: when the caller does not own a product with the given id, \<^verbatim>\<open>update_product\<close>
  fails with status 404 and updates nothing. Nothing is updated, but the 404 is raised
  inside the \<^verbatim>\<open>try\<close> block and reaches the client as 500: here Bob updates Alice's
  Bread.
\<close>

theorem update_product_not_owner_500:
  "\<not> owns shop (email bob) (products shop ! 0) \<and> element_id (products shop ! 0) = ''5''
   \<and> update_product bob ''5'' [(''price'', Some (VNum 9))] 300 shop =
     (Inl (HTTPException 500
            (StrExn (HTTPException 404 (Lit ''Product not found or not owned by baker'')))),
      tick shop)
   \<and> status_of (fst (update_product bob ''5'' [(''price'', Some (VNum 9))] 300 shop)) = Some 500"
  by code_simp

section \<open>Deleting a product\<close>

text \<open>
  Claim C6: \<^verbatim>\<open>delete_product\<close> is idempotent. Called twice with the same id, it
  succeeds both times, and every product with that id that the caller owns has
  \<^verbatim>\<open>is_available = false\<close> after the first call and after the second.
\<close>

theorem delete_product_idempotent:
  assumes first: "d' = snd (delete_product cu pid now d)"
    and second: "d'' = snd (delete_product cu pid now' d')"
  shows "fst (delete_product cu pid now d) = Inr ''Product marked as unavailable''
       \<and> fst (delete_product cu pid now' d') = Inr ''Product marked as unavailable''
       \<and> (\<forall>i < length (products d).
            owns d (email cu) (products d ! i) \<and> element_id (products d ! i) = pid \<longrightarrow>
              node_get (products d' ! i) ''is_available'' = Some (VBool False)
            \<and> node_get (products d'' ! i) ''is_available'' = Some (VBool False))"
proof -
  have d': "d' = run_delete_product (email cu) pid now d"
    using first by (simp add: delete_product_eq)
  have d'': "d'' = run_delete_product (email cu) pid now' d'"
    using second by (simp add: delete_product_eq)
  have "node_get (products d' ! i) ''is_available'' = Some (VBool False)
      \<and> node_get (products d'' ! i) ''is_available'' = Some (VBool False)"
    if i: "i < length (products d)"
      and own: "owns d (email cu) (products d ! i) \<and> element_id (products d ! i) = pid" for i
  proof -
    have a: "products d' ! i = mark_unavailable now (products d ! i)"
      using i own by (simp add: d' run_delete_product_nth)
    then have b: "node_get (products d' ! i) ''is_available'' = Some (VBool False)"
      by (simp add: mark_unavailable_get)
    have "i < length (products d')"
      using i by (simp add: d')
    then have "products d'' ! i = mark_unavailable now' (products d' ! i)
        \<or> products d'' ! i = products d' ! i"
      by (simp add: d'' run_delete_product_nth)
    then have "node_get (products d'' ! i) ''is_available'' = Some (VBool False)"
      using b by (auto simp: mark_unavailable_get)
    with b show ?thesis by simp
  qed
  then show ?thesis
    by (simp add: delete_product_eq)
qed

theorem delete_product_idempotent_witness:
  "0 < length (products shop)
   \<and> owns shop (email alice) (products shop ! 0) \<and> element_id (products shop ! 0) = ''5''
   \<and> fst (delete_product alice ''5'' 400 shop) = Inr ''Product marked as unavailable''
   \<and> fst (delete_product alice ''5'' 500 (snd (delete_product alice ''5'' 400 shop))) =
       Inr ''Product marked as unavailable''
   \<and> node_get (products (snd (delete_product alice ''5'' 400 shop)) ! 0) ''is_available'' =
       Some (VBool False)
   \<and> node_get (products (snd (delete_product alice ''5'' 500
          (snd (delete_product alice ''5'' 400 shop)))) ! 0) ''is_available'' =
       Some (VBool False)"
proof -
  have len: "0 < length (products shop)"
    by code_simp
  have own: "owns shop (email alice) (products shop ! 0) \<and> element_id (products shop ! 0) = ''5''"
    by code_simp
  from delete_product_idempotent [where cu = alice and pid = "''5''" and now = 400
      and now' = 500 and d = shop, OF refl refl] len own
  show ?thesis
    by blast
qed

section \<open>The orders of a baker\<close>



section \<open>Updating the status of an order\<close>

text \<open>
  Claim C8: for a baker or an admin, any order id and any status string,
  \<^verbatim>\<open>update_order_status\<close> answers with its success message; the orders with the id get
  the status and \<^verbatim>\<open>updated_at\<close> and keep their other properties, every other order
  is left alone, and when no order has the id the store is as before, one statement
  later.
\<close>

theorem update_order_status_unchecked:
  assumes allowed: "role cu = ''baker'' \<or> role cu = ''admin''"
    and after: "d' = snd (update_order_status cu order_id new_status now d)"
  shows "fst (update_order_status cu order_id new_status now d) =
           Inr ''Order status updated successfully''
       \<and> length (orders d') = length (orders d)
       \<and> (\<forall>i < length (orders d).
            node_id (orders d' ! i) = node_id (orders d ! i)
          \<and> element_id (orders d' ! i) = element_id (orders d ! i)
          \<and> (if element_id (orders d ! i) = order_id
              then node_get (orders d' ! i) ''status'' = Some (VStr new_status)
                 \<and> node_get (orders d' ! i) ''updated_at'' = Some (VTime now)
                 \<and> (\<forall>k. k \<noteq> ''status'' \<and> k \<noteq> ''updated_at'' \<longrightarrow>
                        node_get (orders d' ! i) k = node_get (orders d ! i) k)
              else orders d' ! i = orders d ! i))
       \<and> ((\<forall>ord \<in> set (orders d). element_id ord \<noteq> order_id) \<longrightarrow> d' = tick d)
       \<and> users d' = users d \<and> products d' = products d \<and> bakes d' = bakes d
       \<and> placed d' = placed d \<and> for_product d' = for_product d"
proof -
  have body: "update_order_status cu order_id new_status now d =
      (Inr ''Order status updated successfully'',
       run_update_order_status order_id new_status now d)"
    using allowed by (auto simp: update_order_status_def update_order_status_body_def try_except_Inr)
  then have d': "d' = run_update_order_status order_id new_status now d"
    using after by simp
  have nomatch: "(\<forall>ord \<in> set (orders d). element_id ord \<noteq> order_id) \<Longrightarrow>
      map (\<lambda>ord. if element_id ord = order_id then assign_status new_status now ord else ord)
        (orders d) = orders d"
    by (induction "orders d") (auto simp: map_idI)
  show ?thesis
    using body nomatch
    by (auto simp: d' run_update_order_status_def tick_def assign_status_get)
qed

theorem update_order_status_unchecked_witness:
  "(role alice = ''baker'' \<or> role alice = ''admin'')
   \<and> list_all (\<lambda>ord. element_id ord \<noteq> ''77'') (orders shop)
   \<and> fst (update_order_status alice ''77'' ''teleported'' 400 shop) =
       Inr ''Order status updated successfully''
   \<and> snd (update_order_status alice ''77'' ''teleported'' 400 shop) = tick shop"
proof -
  have allowed: "role alice = ''baker'' \<or> role alice = ''admin''"
    by (simp add: alice_def)
  have nomatch: "\<forall>ord \<in> set (orders shop). element_id ord \<noteq> ''77''"
    by code_simp
  from update_order_status_unchecked [OF allowed refl, of "''77''" "''teleported''" 400 shop]
    allowed nomatch nomatch [folded list_all_iff]
  show ?thesis
    by meson
qed

section \<open>The blanket exception handler\<close>

text \<open>
  Claim C9: an exception raised in the body of a handler, the handler's own 403, 400
  and 404 among them, reaches the client as status 500 whose detail is the exception
  rendered by \<^verbatim>\<open>str\<close>. This holds for every handler whose body can raise; the body of
  \<^verbatim>\<open>delete_product\<close> raises nothing. In \<^verbatim>\<open>create_order\<close> the 400 arises when the
  statement has run and matched nothing; a quantity that the driver refuses surfaces as
  500 in the same way, before the statement runs.
\<close>

theorem handler_errors_surface_as_500:
  "(\<forall>cu od now d e. fst (create_order_body cu od now d) = Inl e \<longrightarrow>
        fst (create_order cu od now d) = Inl (HTTPException 500 (StrExn e)))
   \<and> (\<forall>cu d e. fst (get_baker_orders_body cu d) = Inl e \<longrightarrow>
        fst (get_baker_orders cu d) = Inl (HTTPException 500 (StrExn e)))
   \<and> (\<forall>cu d e. fst (get_all_orders_body cu d) = Inl e \<longrightarrow>
        fst (get_all_orders cu d) = Inl (HTTPException 500 (StrExn e)))
   \<and> (\<forall>cu oid st now d e. fst (update_order_status_body cu oid st now d) = Inl e \<longrightarrow>
        fst (update_order_status cu oid st now d) = Inl (HTTPException 500 (StrExn e)))
   \<and> (\<forall>cu pd now d e. fst (create_product_body cu pd now d) = Inl e \<longrightarrow>
        fst (create_product cu pd now d) = Inl (HTTPException 500 (StrExn e)))
   \<and> (\<forall>cu d e. fst (get_baker_products_body cu d) = Inl e \<longrightarrow>
        fst (get_baker_products cu d) = Inl (HTTPException 500 (StrExn e)))
   \<and> (\<forall>search lo hi d e. fst (get_products_body search lo hi d) = Inl e \<longrightarrow>
        fst (get_products search lo hi d) = Inl (HTTPException 500 (StrExn e)))
   \<and> (\<forall>cu pid data now d e. fst (update_product_body cu pid data now d) = Inl e \<longrightarrow>
        fst (update_product cu pid data now d) = Inl (HTTPException 500 (StrExn e)))
   \<and> (\<forall>cu od now d. role cu \<noteq> ''customer'' \<longrightarrow>
        fst (create_order cu od now d) =
          Inl (HTTPException 500 (StrExn (HTTPException 403 (Lit ''Only customers can create orders'')))))
   \<and> (\<forall>cu od now d.
        role cu = ''customer'' \<and> filter (orderable (product_id od)) (products d) = [] \<longrightarrow>
        fst (create_order cu od now d) =
          Inl (HTTPException 500 (StrExn
                (if fits_int64 (quantity od)
                 then HTTPException 400 (Lit ''Failed to create order'')
                 else OverflowError))))
   \<and> (\<forall>cu oid st now d. role cu \<noteq> ''baker'' \<and> role cu \<noteq> ''admin'' \<longrightarrow>
        fst (update_order_status cu oid st now d) =
          Inl (HTTPException 500 (StrExn (HTTPException 403 (Lit ''Not authorized'')))))
   \<and> (\<forall>cu pd now d. role cu \<noteq> ''baker'' \<longrightarrow>
        fst (create_product cu pd now d) =
          Inl (HTTPException 500 (StrExn (HTTPException 403 (Lit ''Only bakers can create products'')))))
   \<and> (\<forall>cu pid data now d. owned_products d (email cu) pid = [] \<longrightarrow>
        fst (update_product cu pid data now d) =
          Inl (HTTPException 500
                (StrExn (HTTPException 404 (Lit ''Product not found or not owned by baker'')))))"
proof -
  have a: "fst (create_order_body cu od now d) =
      Inl (HTTPException 403 (Lit ''Only customers can create orders''))"
    if "role cu \<noteq> ''customer''" for cu od now d
    using that by (simp add: create_order_body_def)
  have b: "fst (create_order_body cu od now d) =
      Inl (if fits_int64 (quantity od)
           then HTTPException 400 (Lit ''Failed to create order'')
           else OverflowError)"
    if "role cu = ''customer'' \<and> filter (orderable (product_id od)) (products d) = []"
    for cu od now d
    using that by (simp add: create_order_body_def run_create_order_no_product single_def)
  have c: "fst (update_order_status_body cu oid st now d) =
      Inl (HTTPException 403 (Lit ''Not authorized''))"
    if "role cu \<noteq> ''baker'' \<and> role cu \<noteq> ''admin''" for cu oid st now d
    using that by (simp add: update_order_status_body_def)
  have e: "fst (create_product_body cu pd now d) =
      Inl (HTTPException 403 (Lit ''Only bakers can create products''))"
    if "role cu \<noteq> ''baker''" for cu pd now d
    using that by (simp add: create_product_body_def)
  have f: "fst (update_product_body cu pid data now d) =
      Inl (HTTPException 404 (Lit ''Product not found or not owned by baker''))"
    if "owned_products d (email cu) pid = []" for cu pid data now d
    using that by (simp add: update_product_body_def single_def)
  show ?thesis
    unfolding create_order_def get_baker_orders_def get_all_orders_def update_order_status_def
      create_product_def get_baker_products_def get_products_def update_product_def
    by (intro conjI allI impI fst_try_except) (simp_all add: a b c e f)
qed

theorem handler_errors_surface_as_500_witness:
  "fst (create_order alice \<lparr>product_id = ''5'', quantity = 2\<rparr> 300 shop) =
     Inl (HTTPException 500 (StrExn (HTTPException 403 (Lit ''Only customers can create orders''))))
   \<and> fst (get_baker_orders carol shop) =
     Inl (HTTPException 500 (StrExn (HTTPException 403 (Lit ''Access denied: Not a baker''))))
   \<and> fst (get_all_orders carol shop) =
     Inl (HTTPException 500 (StrExn (HTTPException 403 (Lit ''Admins only''))))
   \<and> fst (update_order_status carol ''8'' ''shipped'' 300 shop) =
     Inl (HTTPException 500 (StrExn (HTTPException 403 (Lit ''Not authorized''))))
   \<and> fst (create_product carol \<lparr>name = ''Bun'', description = None, price = 3, stock_quantity = 4\<rparr> 300 shop) =
     Inl (HTTPException 500 (StrExn (HTTPException 403 (Lit ''Only bakers can create products''))))
   \<and> fst (get_baker_products carol shop) =
     Inl (HTTPException 500 (StrExn (HTTPException 403 (Lit ''Access denied: Not a baker''))))
   \<and> fst (get_products None None None shop) =
     Inl (HTTPException 500 (StrExn CypherSyntaxError))
   \<and> fst (update_product bob ''5'' [(''price'', Some (VNum 9))] 300 shop) =
     Inl (HTTPException 500
           (StrExn (HTTPException 404 (Lit ''Product not found or not owned by baker''))))
   \<and> fst (create_order carol \<lparr>product_id = ''6'', quantity = 2\<rparr> 300 shop) =
     Inl (HTTPException 500 (StrExn (HTTPException 400 (Lit ''Failed to create order''))))"
proof -
  note T = handler_errors_surface_as_500
  have r1: "role alice \<noteq> ''customer''"
    by (simp add: alice_def)
  have r2: "role carol \<noteq> ''baker'' \<and> role carol \<noteq> ''admin''"
    by (simp add: carol_def)
  have r3: "role carol = ''customer''
      \<and> filter (orderable (product_id \<lparr>product_id = ''6'', quantity = 2\<rparr>)) (products shop) = []"
    by code_simp
  have r4: "owned_products shop (email bob) ''5'' = []"
    by code_simp
  have b1: "fst (create_order_body alice \<lparr>product_id = ''5'', quantity = 2\<rparr> 300 shop) =
      Inl (HTTPException 403 (Lit ''Only customers can create orders''))"
    by code_simp
  have b2: "fst (get_baker_orders_body carol shop) =
      Inl (HTTPException 403 (Lit ''Access denied: Not a baker''))"
    by code_simp
  have b3: "fst (get_all_orders_body carol shop) = Inl (HTTPException 403 (Lit ''Admins only''))"
    by code_simp
  have b4: "fst (update_order_status_body carol ''8'' ''shipped'' 300 shop) =
      Inl (HTTPException 403 (Lit ''Not authorized''))"
    by code_simp
  have b5: "fst (create_product_body carol
        \<lparr>name = ''Bun'', description = None, price = 3, stock_quantity = 4\<rparr> 300 shop) =
      Inl (HTTPException 403 (Lit ''Only bakers can create products''))"
    by code_simp
  have b6: "fst (get_baker_products_body carol shop) =
      Inl (HTTPException 403 (Lit ''Access denied: Not a baker''))"
    by code_simp
  have b7: "fst (get_products_body None None None shop) = Inl CypherSyntaxError"
    by code_simp
  have b8: "fst (update_product_body bob ''5'' [(''price'', Some (VNum 9))] 300 shop) =
      Inl (HTTPException 404 (Lit ''Product not found or not owned by baker''))"
    by code_simp
  have r5: "fits_int64 (quantity \<lparr>product_id = ''6'', quantity = 2\<rparr>)"
    by code_simp
  have "fst (create_order carol \<lparr>product_id = ''6'', quantity = 2\<rparr> 300 shop) =
      Inl (HTTPException 500 (StrExn
            (if fits_int64 (quantity \<lparr>product_id = ''6'', quantity = 2\<rparr>)
             then HTTPException 400 (Lit ''Failed to create order'')
             else OverflowError)))"
    using T r3 by meson
  then have w: "fst (create_order carol \<lparr>product_id = ''6'', quantity = 2\<rparr> 300 shop) =
      Inl (HTTPException 500 (StrExn (HTTPException 400 (Lit ''Failed to create order''))))"
    by (simp only: r5 if_True)
  from T r1 r2 r4 b1 b2 b3 b4 b5 b6 b7 b8 w show ?thesis
    by meson
qed

text \<open>
  Claim C10: when the owning baker sends an update in which every field is absent or
  \<^verbatim>\<open>None\<close>, \<^verbatim>\<open>update_product\<close> does not succeed as an update of \<^verbatim>\<open>updated_at\<close> alone:
  the \<^verbatim>\<open>SET\<close> clause is empty, the store rejects the statement, and the caller gets
  the error instead of the product record. The store has run the ownership check and
  has been given the rejected statement, and is otherwise unchanged.
\<close>

theorem update_product_all_null_fails:
  assumes owner: "owned_products d (email cu) pid \<noteq> []"
    and nulls: "\<forall>kv \<in> set product_data. snd kv = None"
  shows "update_product cu pid product_data now d =
           (Inl (HTTPException 500 (StrExn CypherSyntaxError)), tick (tick d))"
proof -
  from owner obtain p where "single (owned_products d (email cu) pid) = Some p"
    by (cases "owned_products d (email cu) pid") (simp_all add: single_def)
  moreover from nulls have "non_null product_data = []"
    by (simp add: non_null_Nil)
  ultimately have "update_product_body cu pid product_data now d =
      (Inl CypherSyntaxError, tick (tick d))"
    by (simp add: update_product_body_def run_update_product_def)
  then show ?thesis
    by (simp add: update_product_def try_except_Inl)
qed

theorem update_product_all_null_fails_witness:
  "owned_products shop (email alice) ''5'' \<noteq> []
   \<and> list_all (\<lambda>kv. snd kv = (None :: val option)) [(''name'', None), (''price'', None)]
   \<and> update_product alice ''5'' [(''name'', None), (''price'', None)] 400 shop =
       (Inl (HTTPException 500 (StrExn CypherSyntaxError)), tick (tick shop))"
proof -
  have h1: "owned_products shop (email alice) ''5'' \<noteq> []"
    by code_simp
  have h2: "\<forall>kv \<in> set [(''name'', None), (''price'', None)]. snd kv = (None :: val option)"
    by simp
  from update_product_all_null_fails [OF h1 h2] h1 h2 [folded list_all_iff] show ?thesis
    by blast
qed

end
